theory Spec2Isabelle
  imports Complex_Main "HOL-Library.Word"
begin

unbundle bit_operations_syntax

section \<open>nanogui/common.h: machine types\<close>

text \<open>
  The header works on C++ \<open>int\<close> (32-bit two's complement), \<open>char\<close> (one byte)
  and \<open>float\<close>. An \<open>int\<close> is a 32-bit word read through \<open>sint\<close>: comparisons
  are the signed ones (\<open><s\<close>, \<open>\<le>s\<close>), \<open>>>\<close> is the arithmetic shift
  \<open>signed_drop_bit\<close>, and the conversion of an \<open>int\<close> to \<open>char\<close> keeps the low
  eight bits (\<open>ucast\<close>).
\<close>

type_synonym cint = "32 word"
type_synonym cchar = "8 word"

section \<open>Icon identifiers\<close>

text \<open>\<^verbatim>\<open>inline bool nvgIsImageIcon (int value) { return value < 1024; }\<close>\<close>

definition nvgIsImageIcon :: "cint \<Rightarrow> bool" where
  "nvgIsImageIcon v = (v <s 1024)"

text \<open>\<^verbatim>\<open>inline bool nvgIsFontIcon (int value) { return value >= 1024; }\<close>\<close>

definition nvgIsFontIcon :: "cint \<Rightarrow> bool" where
  "nvgIsFontIcon v = (1024 \<le>s v)"

section \<open>UTF-8 encoding of one code point\<close>

text \<open>
  \<open>std::array<char, 8> seq;\<close> is declared without an initialiser, so its eight
  bytes start with whatever the storage held. The model makes that content an explicit
  argument \<open>stk\<close> (byte \<open>i\<close> of the fresh array is \<open>stk i\<close>).

  \<open>std::array::operator[]\<close> does not check its index; an access outside the eight
  bytes is undefined behaviour. The model checks every write and returns
  \<open>Inl OutOfBounds\<close> for such an access, so that "all writes are in bounds" is the
  statement that \<open>utf8\<close> returns \<open>Inr\<close>.
\<close>

datatype error = OutOfBounds

definition fresh_array :: "(nat \<Rightarrow> cchar) \<Rightarrow> cchar list" where
  "fresh_array stk = map stk [0..<8]"

definition store :: "cchar list \<Rightarrow> nat \<Rightarrow> cchar \<Rightarrow> error + cchar list" where
  "store seq i v = (if i < length seq then Inr (seq[i := v]) else Inl OutOfBounds)"

text \<open>
  The chain of \<open>if\<close>s that picks the length. \<open>n\<close> starts at 0 and the last test
  \<open>c <= 0x7fffffff\<close> has no \<open>else\<close>.
\<close>

definition utf8_n :: "cint \<Rightarrow> nat" where
  "utf8_n c =
     (if c <s 0x80 then 1
      else if c <s 0x800 then 2
      else if c <s 0x10000 then 3
      else if c <s 0x200000 then 4
      else if c <s 0x4000000 then 5
      else if c \<le>s 0x7fffffff then 6
      else 0)"

text \<open>
  The \<open>switch\<close> has no \<open>break\<close>: the block of \<open>case k\<close> stores one continuation
  byte, shifts \<open>c\<close>, sets the marker bit of the next shorter form and falls through
  into \<open>case k - 1\<close>. Each block is one function on the pair (array, \<open>c\<close>).
\<close>

definition cont_byte :: "cint \<Rightarrow> cchar" where
  "cont_byte c = ucast (0x80 OR (c AND 0x3f))"

definition case1 :: "cchar list \<Rightarrow> cint \<Rightarrow> error + cchar list" where
  "case1 seq c = store seq 0 (ucast c)"

definition case2 :: "cchar list \<Rightarrow> cint \<Rightarrow> error + cchar list" where
  "case2 seq c =
     (case store seq 1 (cont_byte c) of
        Inl e \<Rightarrow> Inl e
      | Inr seq' \<Rightarrow> case1 seq' (signed_drop_bit 6 c OR 0xc0))"

definition case3 :: "cchar list \<Rightarrow> cint \<Rightarrow> error + cchar list" where
  "case3 seq c =
     (case store seq 2 (cont_byte c) of
        Inl e \<Rightarrow> Inl e
      | Inr seq' \<Rightarrow> case2 seq' (signed_drop_bit 6 c OR 0x800))"

definition case4 :: "cchar list \<Rightarrow> cint \<Rightarrow> error + cchar list" where
  "case4 seq c =
     (case store seq 3 (cont_byte c) of
        Inl e \<Rightarrow> Inl e
      | Inr seq' \<Rightarrow> case3 seq' (signed_drop_bit 6 c OR 0x10000))"

definition case5 :: "cchar list \<Rightarrow> cint \<Rightarrow> error + cchar list" where
  "case5 seq c =
     (case store seq 4 (cont_byte c) of
        Inl e \<Rightarrow> Inl e
      | Inr seq' \<Rightarrow> case4 seq' (signed_drop_bit 6 c OR 0x200000))"

definition case6 :: "cchar list \<Rightarrow> cint \<Rightarrow> error + cchar list" where
  "case6 seq c =
     (case store seq 5 (cont_byte c) of
        Inl e \<Rightarrow> Inl e
      | Inr seq' \<Rightarrow> case5 seq' (signed_drop_bit 6 c OR 0x4000000))"

definition switch_n :: "nat \<Rightarrow> cchar list \<Rightarrow> cint \<Rightarrow> error + cchar list" where
  "switch_n n seq c =
     (if n = 6 then case6 seq c
      else if n = 5 then case5 seq c
      else if n = 4 then case4 seq c
      else if n = 3 then case3 seq c
      else if n = 2 then case2 seq c
      else if n = 1 then case1 seq c
      else Inr seq)"

definition utf8 :: "(nat \<Rightarrow> cchar) \<Rightarrow> cint \<Rightarrow> error + cchar list" where
  "utf8 stk c =
     (let n = utf8_n c in
      case store (fresh_array stk) n 0 of
        Inl e \<Rightarrow> Inl e
      | Inr seq \<Rightarrow> switch_n n seq c)"


section \<open>Colors\<close>

text \<open>
  \<open>Eigen::Matrix<Scalar, 3, 1>\<close> and \<open>Eigen::Matrix<Scalar, 4, 1>\<close> are fixed-size
  vectors of three and four coefficients; \<open>x()\<close>, \<open>y()\<close>, \<open>z()\<close>, \<open>w()\<close> and
  \<open>v (0)\<close>, \<open>v (1)\<close>, \<open>v (2)\<close> read them. \<open>Vector3i\<close>/\<open>Vector4i\<close> hold
  \<open>int\<close>, \<open>Vector3f\<close>/\<open>Vector4f\<close> hold \<open>float\<close>.

  A \<open>float\<close> is modelled as an exact real number: the rounding of IEEE single
  precision, infinities and NaN are not part of the model. \<open>cast<float>()\<close> of an
  \<open>int\<close> is its signed value.
\<close>

type_synonym float = real

record 'a Vector3 =
  coeff0 :: 'a
  coeff1 :: 'a
  coeff2 :: 'a

record 'a Vector4 =
  coeff_x :: 'a
  coeff_y :: 'a
  coeff_z :: 'a
  coeff_w :: 'a

type_synonym Vector3f = "float Vector3"
type_synonym Vector3i = "cint Vector3"
type_synonym Vector4f = "float Vector4"
type_synonym Vector4i = "cint Vector4"

definition cast_float :: "cint \<Rightarrow> float" where
  "cast_float i = real_of_int (sint i)"

definition Vector3_cast_float :: "Vector3i \<Rightarrow> Vector3f" where
  "Vector3_cast_float v =
     \<lparr>coeff0 = cast_float (coeff0 v), coeff1 = cast_float (coeff1 v),
      coeff2 = cast_float (coeff2 v)\<rparr>"

definition Vector4_cast_float :: "Vector4i \<Rightarrow> Vector4f" where
  "Vector4_cast_float v =
     \<lparr>coeff_x = cast_float (coeff_x v), coeff_y = cast_float (coeff_y v),
      coeff_z = cast_float (coeff_z v), coeff_w = cast_float (coeff_w v)\<rparr>"

text \<open>\<open>v / s\<close>: every coefficient divided by the scalar.\<close>

definition Vector3_div :: "Vector3f \<Rightarrow> float \<Rightarrow> Vector3f" where
  "Vector3_div v s = \<lparr>coeff0 = coeff0 v / s, coeff1 = coeff1 v / s, coeff2 = coeff2 v / s\<rparr>"

definition Vector4_div :: "Vector4f \<Rightarrow> float \<Rightarrow> Vector4f" where
  "Vector4_div v s =
     \<lparr>coeff_x = coeff_x v / s, coeff_y = coeff_y v / s,
      coeff_z = coeff_z v / s, coeff_w = coeff_w v / s\<rparr>"

text \<open>\<open>Vector3f::Constant (c)\<close> and \<open>Vector3i::Constant (c)\<close>.\<close>

definition Vector3_Constant :: "'a \<Rightarrow> 'a Vector3" where
  "Vector3_Constant c = \<lparr>coeff0 = c, coeff1 = c, coeff2 = c\<rparr>"

definition cwiseProduct :: "Vector4f \<Rightarrow> Vector4f \<Rightarrow> Vector4f" where
  "cwiseProduct u v =
     \<lparr>coeff_x = coeff_x u * coeff_x v, coeff_y = coeff_y u * coeff_y v,
      coeff_z = coeff_z u * coeff_z v, coeff_w = coeff_w u * coeff_w v\<rparr>"

definition sum_coeffs :: "Vector4f \<Rightarrow> float" where
  "sum_coeffs v = coeff_x v + coeff_y v + coeff_z v + coeff_w v"

text \<open>
  \<open>class Color : public Eigen::Vector4f\<close> adds no member: a color is the vector.
  One definition per constructor, each delegating as its initialiser list does.
\<close>

type_synonym Color = Vector4f

text \<open>\<^verbatim>\<open>Color (const Eigen::Vector4f & color) : Eigen::Vector4f (color) { }\<close>\<close>

definition Color_Vector4f :: "Vector4f \<Rightarrow> Color" where
  "Color_Vector4f color = color"

text \<open>\<^verbatim>\<open>Color (float r, float g, float b, float a) : Color (Vector4f (r, g, b, a)) { }\<close>\<close>

definition Color_float4 :: "float \<Rightarrow> float \<Rightarrow> float \<Rightarrow> float \<Rightarrow> Color" where
  "Color_float4 r g b a =
     Color_Vector4f \<lparr>coeff_x = r, coeff_y = g, coeff_z = b, coeff_w = a\<rparr>"

text \<open>\<^verbatim>\<open>Color (const Eigen::Vector3f & color, float alpha)
   : Color (color (0), color (1), color (2), alpha) { }\<close>\<close>

definition Color_Vector3f_alpha :: "Vector3f \<Rightarrow> float \<Rightarrow> Color" where
  "Color_Vector3f_alpha color alpha =
     Color_float4 (coeff0 color) (coeff1 color) (coeff2 color) alpha"

text \<open>\<^verbatim>\<open>Color (const Eigen::Vector3i & color, int alpha)
   : Color (color.cast<float>() / 255.f, alpha / 255.f) { }\<close>\<close>

definition Color_Vector3i_alpha :: "Vector3i \<Rightarrow> cint \<Rightarrow> Color" where
  "Color_Vector3i_alpha color alpha =
     Color_Vector3f_alpha (Vector3_div (Vector3_cast_float color) 255) (cast_float alpha / 255)"

text \<open>\<^verbatim>\<open>Color (const Eigen::Vector3f & color) : Color (color, 1.0f) {}\<close>\<close>

definition Color_Vector3f :: "Vector3f \<Rightarrow> Color" where
  "Color_Vector3f color = Color_Vector3f_alpha color 1"

text \<open>\<^verbatim>\<open>Color (const Eigen::Vector3i & color)
   : Color ((Vector3f) (color.cast<float>() / 255.f)) { }\<close>\<close>

definition Color_Vector3i :: "Vector3i \<Rightarrow> Color" where
  "Color_Vector3i color = Color_Vector3f (Vector3_div (Vector3_cast_float color) 255)"

text \<open>\<^verbatim>\<open>Color (const Eigen::Vector4i & color)
   : Color ((Vector4f) (color.cast<float>() / 255.f)) { }\<close>\<close>

definition Color_Vector4i :: "Vector4i \<Rightarrow> Color" where
  "Color_Vector4i color = Color_Vector4f (Vector4_div (Vector4_cast_float color) 255)"

text \<open>\<^verbatim>\<open>Color (float intensity, float alpha)
   : Color (Vector3f::Constant (intensity), alpha) { }\<close>\<close>

definition Color_float2 :: "float \<Rightarrow> float \<Rightarrow> Color" where
  "Color_float2 intensity alpha = Color_Vector3f_alpha (Vector3_Constant intensity) alpha"

text \<open>\<^verbatim>\<open>Color (int intensity, int alpha)
   : Color (Vector3i::Constant (intensity), alpha) { }\<close>\<close>

definition Color_int2 :: "cint \<Rightarrow> cint \<Rightarrow> Color" where
  "Color_int2 intensity alpha = Color_Vector3i_alpha (Vector3_Constant intensity) alpha"

text \<open>\<^verbatim>\<open>Color (int r, int g, int b, int a) : Color (Vector4i (r, g, b, a)) { }\<close>\<close>

definition Color_int4 :: "cint \<Rightarrow> cint \<Rightarrow> cint \<Rightarrow> cint \<Rightarrow> Color" where
  "Color_int4 r g b a =
     Color_Vector4i \<lparr>coeff_x = r, coeff_y = g, coeff_z = b, coeff_w = a\<rparr>"

text \<open>
  \<^verbatim>\<open>Color() : Color (0, 0, 0, 0) {}\<close>: the four literals are \<open>int\<close>s, so the
  delegation goes to the \<open>int\<close> constructor.
\<close>

definition Color_default :: Color where
  "Color_default = Color_int4 0 0 0 0"

subsection \<open>Channel accessors\<close>

text \<open>
  \<open>r()\<close>, \<open>g()\<close> and \<open>b()\<close> return a reference (\<open>float &\<close>, or
  \<open>const float &\<close> for the const overloads) to a coefficient of the object they are
  called on. A reference is the name of the coefficient it points to; it is read with
  \<open>deref\<close> and, when it is not const, written with \<open>assign\<close>. Each accessor is a
  member function in state-passing form: it returns the reference together with the
  object after the call. \<open>Color_r\<close> is \<open>Color::r\<close>, and so on.
\<close>

datatype coeff_ref = Ref_x | Ref_y | Ref_z | Ref_w

fun deref :: "Color \<Rightarrow> coeff_ref \<Rightarrow> float" where
  "deref c Ref_x = coeff_x c"
| "deref c Ref_y = coeff_y c"
| "deref c Ref_z = coeff_z c"
| "deref c Ref_w = coeff_w c"

fun assign :: "Color \<Rightarrow> coeff_ref \<Rightarrow> float \<Rightarrow> Color" where
  "assign c Ref_x v = c\<lparr>coeff_x := v\<rparr>"
| "assign c Ref_y v = c\<lparr>coeff_y := v\<rparr>"
| "assign c Ref_z v = c\<lparr>coeff_z := v\<rparr>"
| "assign c Ref_w v = c\<lparr>coeff_w := v\<rparr>"

text \<open>\<^verbatim>\<open>float & r() { return x(); }\<close> and \<^verbatim>\<open>const float & r() const { return x(); }\<close>\<close>

definition Color_r :: "Color \<Rightarrow> coeff_ref \<times> Color" where
  "Color_r c = (Ref_x, c)"

definition Color_r_const :: "Color \<Rightarrow> coeff_ref \<times> Color" where
  "Color_r_const c = (Ref_x, c)"

text \<open>\<^verbatim>\<open>float & g() { return y(); }\<close> and \<^verbatim>\<open>const float & g() const { return y(); }\<close>\<close>

definition Color_g :: "Color \<Rightarrow> coeff_ref \<times> Color" where
  "Color_g c = (Ref_y, c)"

definition Color_g_const :: "Color \<Rightarrow> coeff_ref \<times> Color" where
  "Color_g_const c = (Ref_y, c)"

text \<open>\<^verbatim>\<open>float & b() { return z(); }\<close> and \<^verbatim>\<open>const float & b() const { return z(); }\<close>\<close>

definition Color_b :: "Color \<Rightarrow> coeff_ref \<times> Color" where
  "Color_b c = (Ref_z, c)"

definition Color_b_const :: "Color \<Rightarrow> coeff_ref \<times> Color" where
  "Color_b_const c = (Ref_z, c)"

subsection \<open>Contrasting color\<close>

text \<open>
  \<^verbatim>\<open>float luminance = cwiseProduct (Color (0.299f, 0.587f, 0.144f, 0.f)).sum();
  return Color (luminance < 0.5f ? 1.f : 0.f, 1.f);\<close>

  The third weight is written \<open>0.144f\<close> in the source.
\<close>

definition luminance :: "Color \<Rightarrow> float" where
  "luminance c = sum_coeffs (cwiseProduct c (Color_float4 0.299 0.587 0.144 0))"

definition contrastingColor :: "Color \<Rightarrow> Color" where
  "contrastingColor c = Color_float2 (if luminance c < 0.5 then 1 else 0) 1"

section \<open>Modifier codes\<close>

text \<open>
  \<^verbatim>\<open>enum { SHIFT_DOWN = 0x0008, ALT_DOWN = 0x0010, CTRL_DOWN = 0x0020,
         META_DOWN = 0x0040, ACCEL_DOWN = ... };\<close>
  \<open>ACCEL_DOWN\<close> is \<open>CTRL_DOWN\<close> when \<open>CINDER_MSW\<close> or \<open>CINDER_WINRT\<close> is defined
  and \<open>META_DOWN\<close> otherwise; the build flag is the argument \<open>msw\<close>.
\<close>

definition SHIFT_DOWN :: cint where "SHIFT_DOWN = 0x0008"
definition ALT_DOWN :: cint where "ALT_DOWN = 0x0010"
definition CTRL_DOWN :: cint where "CTRL_DOWN = 0x0020"
definition META_DOWN :: cint where "META_DOWN = 0x0040"

definition ACCEL_DOWN :: "bool \<Rightarrow> cint" where
  "ACCEL_DOWN msw = (if msw then CTRL_DOWN else META_DOWN)"

datatype modifier = Shift | Alt | Ctrl | Meta

fun modifier_code :: "modifier \<Rightarrow> cint" where
  "modifier_code Shift = SHIFT_DOWN"
| "modifier_code Alt = ALT_DOWN"
| "modifier_code Ctrl = CTRL_DOWN"
| "modifier_code Meta = META_DOWN"

text \<open>
  The uses the codes are made for: a set of modifiers held down is the bitwise OR of
  their codes, and one modifier is tested with a bitwise AND.
\<close>

fun modifiers_mask :: "modifier list \<Rightarrow> cint" where
  "modifiers_mask [] = 0"
| "modifiers_mask (m # ms) = modifier_code m OR modifiers_mask ms"

definition modifier_down :: "cint \<Rightarrow> modifier \<Rightarrow> bool" where
  "modifier_down flags m = (flags AND modifier_code m \<noteq> 0)"

section \<open>The encoding UTF-8 prescribes\<close>

text \<open>
  The reference the encoder is compared with, written from the definition of UTF-8
  and not from the code: the bytes, as numbers, of a code point up to \<open>0x10FFFF\<close>.
  One byte \<open>0xxxxxxx\<close> below \<open>0x80\<close>; \<open>110xxxxx 10xxxxxx\<close> below \<open>0x800\<close>;
  \<open>1110xxxx 10xxxxxx 10xxxxxx\<close> below \<open>0x10000\<close>; and
  \<open>11110xxx 10xxxxxx 10xxxxxx 10xxxxxx\<close> from there on. The values
  \<open>0xD800..0xDFFF\<close> get the three-byte form of their range like any other.
\<close>

definition utf8_std :: "nat \<Rightarrow> nat list" where
  "utf8_std c =
     (if c < 0x80 then [c]
      else if c < 0x800 then [0xC0 + c div 0x40, 0x80 + c mod 0x40]
      else if c < 0x10000 then
        [0xE0 + c div 0x1000, 0x80 + c div 0x40 mod 0x40, 0x80 + c mod 0x40]
      else
        [0xF0 + c div 0x40000, 0x80 + c div 0x1000 mod 0x40,
         0x80 + c div 0x40 mod 0x40, 0x80 + c mod 0x40])"

text \<open>The number of bytes of that encoding.\<close>

definition utf8_std_len :: "nat \<Rightarrow> nat" where
  "utf8_std_len c =
     (if c < 0x80 then 1 else if c < 0x800 then 2 else if c < 0x10000 then 3 else 4)"

text \<open>
  The lead byte of an \<open>n\<close>-byte sequence starts with \<open>0\<close>, \<open>110\<close>, \<open>1110\<close> or
  \<open>11110\<close>; a continuation byte starts with \<open>10\<close>.
\<close>

definition lead_byte_ok :: "nat \<Rightarrow> cchar \<Rightarrow> bool" where
  "lead_byte_ok n v =
     (if n = 1 then drop_bit 7 v = 0
      else if n = 2 then drop_bit 5 v = 6
      else if n = 3 then drop_bit 4 v = 14
      else if n = 4 then drop_bit 3 v = 30
      else False)"

definition cont_byte_ok :: "cchar \<Rightarrow> bool" where
  "cont_byte_ok v = (0x80 \<le> v \<and> v \<le> 0xBF)"

text \<open>
  The mask of a set of modifiers written out bit by bit; \<open>modifiers_mask\<close> of a list
  is compared with it to show that order and repetition do not matter.
\<close>

definition canonical_mask :: "modifier set \<Rightarrow> cint" where
  "canonical_mask S =
     (if Shift \<in> S then SHIFT_DOWN else 0) OR (if Alt \<in> S then ALT_DOWN else 0)
     OR (if Ctrl \<in> S then CTRL_DOWN else 0) OR (if Meta \<in> S then META_DOWN else 0)"

section \<open>Two contents of fresh storage\<close>

text \<open>Storage that held zeros, and storage that held \<open>0xFF\<close> bytes.\<close>

definition zero_storage :: "nat \<Rightarrow> cchar" where
  "zero_storage i = 0"

definition ones_storage :: "nat \<Rightarrow> cchar" where
  "ones_storage i = 0xFF"

section \<open>Facts about the encoder\<close>

lemma fresh_array_eq:
  "fresh_array stk = [stk 0, stk 1, stk 2, stk 3, stk 4, stk 5, stk 6, stk 7]"
  by (simp add: fresh_array_def upt_rec numeral_eq_Suc)

lemma utf8_n_range: "1 \<le> utf8_n c \<and> utf8_n c \<le> 6"
  unfolding utf8_n_def
  using sint_lt[of c] by (simp add: word_sle_eq)

lemma utf8_1: "utf8_n c = 1 \<Longrightarrow> utf8 stk c =
   Inr [ucast c, 0, stk 2, stk 3, stk 4, stk 5, stk 6, stk 7]"
  by (simp add: utf8_def fresh_array_eq store_def switch_n_def case1_def)

lemma utf8_2: "utf8_n c = 2 \<Longrightarrow> utf8 stk c =
   Inr [ucast (signed_drop_bit 6 c OR 0xc0), cont_byte c, 0,
        stk 3, stk 4, stk 5, stk 6, stk 7]"
  by (simp add: utf8_def fresh_array_eq store_def switch_n_def case1_def case2_def)

lemma utf8_3: "utf8_n c = 3 \<Longrightarrow> utf8 stk c =
   Inr [ucast (signed_drop_bit 6 (signed_drop_bit 6 c OR 0x800) OR 0xc0),
        cont_byte (signed_drop_bit 6 c OR 0x800), cont_byte c, 0,
        stk 4, stk 5, stk 6, stk 7]"
  by (simp add: utf8_def fresh_array_eq store_def switch_n_def case1_def case2_def case3_def)

lemma utf8_4: "utf8_n c = 4 \<Longrightarrow> utf8 stk c =
   Inr [ucast (signed_drop_bit 6 (signed_drop_bit 6 (signed_drop_bit 6 c OR 0x10000)
                 OR 0x800) OR 0xc0),
        cont_byte (signed_drop_bit 6 (signed_drop_bit 6 c OR 0x10000) OR 0x800),
        cont_byte (signed_drop_bit 6 c OR 0x10000), cont_byte c, 0,
        stk 5, stk 6, stk 7]"
  by (simp add: utf8_def fresh_array_eq store_def switch_n_def
      case1_def case2_def case3_def case4_def)

lemma utf8_5: "utf8_n c = 5 \<Longrightarrow> utf8 stk c =
   Inr [ucast (signed_drop_bit 6 (signed_drop_bit 6 (signed_drop_bit 6
                 (signed_drop_bit 6 c OR 0x200000) OR 0x10000) OR 0x800) OR 0xc0),
        cont_byte (signed_drop_bit 6 (signed_drop_bit 6
                 (signed_drop_bit 6 c OR 0x200000) OR 0x10000) OR 0x800),
        cont_byte (signed_drop_bit 6 (signed_drop_bit 6 c OR 0x200000) OR 0x10000),
        cont_byte (signed_drop_bit 6 c OR 0x200000), cont_byte c, 0,
        stk 6, stk 7]"
  by (simp add: utf8_def fresh_array_eq store_def switch_n_def
      case1_def case2_def case3_def case4_def case5_def)

lemma utf8_6: "utf8_n c = 6 \<Longrightarrow> utf8 stk c =
   Inr [ucast (signed_drop_bit 6 (signed_drop_bit 6 (signed_drop_bit 6 (signed_drop_bit 6
                 (signed_drop_bit 6 c OR 0x4000000) OR 0x200000) OR 0x10000) OR 0x800)
                 OR 0xc0),
        cont_byte (signed_drop_bit 6 (signed_drop_bit 6 (signed_drop_bit 6
                 (signed_drop_bit 6 c OR 0x4000000) OR 0x200000) OR 0x10000) OR 0x800),
        cont_byte (signed_drop_bit 6 (signed_drop_bit 6
                 (signed_drop_bit 6 c OR 0x4000000) OR 0x200000) OR 0x10000),
        cont_byte (signed_drop_bit 6 (signed_drop_bit 6 c OR 0x4000000) OR 0x200000),
        cont_byte (signed_drop_bit 6 c OR 0x4000000), cont_byte c, 0,
        stk 7]"
  by (simp add: utf8_def fresh_array_eq store_def switch_n_def
      case1_def case2_def case3_def case4_def case5_def case6_def)

lemma utf8_n_cases:
  "utf8_n c = 1 \<or> utf8_n c = 2 \<or> utf8_n c = 3 \<or> utf8_n c = 4 \<or> utf8_n c = 5 \<or> utf8_n c = 6"
  using utf8_n_range[of c] by arith

subsection \<open>From words to numbers\<close>

lemma not_bit31: "unat (c::cint) < 2^31 \<Longrightarrow> \<not> bit c 31"
proof -
  assume "unat c < 2^31"
  then have "unat c div 2^31 = 0" by simp
  then have "\<not> bit (unat c) 31" by (simp add: bit_iff_odd)
  then show ?thesis by (simp add: bit_unsigned_iff)
qed

lemma sdb_eq: "unat (c::cint) < 2^31 \<Longrightarrow> signed_drop_bit 6 c = drop_bit 6 c"
proof -
  assume "unat c < 2^31"
  then have nb: "\<not> bit c 31" by (rule not_bit31)
  show ?thesis
    by (rule bit_word_eqI) (auto simp add: bit_simps nb dest: bit_imp_le_length)
qed

lemma sdb6: "unat (c::cint) < 2^31 \<Longrightarrow> unat (signed_drop_bit 6 c) = unat c div 64"
  by (simp add: sdb_eq unsigned_drop_bit_eq drop_bit_eq_div unat_div)

lemma or_marker_nat: "(y::nat) < 2 ^ k \<Longrightarrow> y OR push_bit k m = y + push_bit k m"
proof -
  assume "y < 2 ^ k"
  then have y: "take_bit k y = y" by (rule take_bit_nat_eq_self)
  have "take_bit k y + push_bit k m = take_bit k y OR push_bit k m"
    by (rule disjunctive_add_eq_or, rule bit_eqI) (auto simp add: bit_simps)
  then show ?thesis by (simp add: y)
qed

lemma or_c0: "(y::nat) < 64 \<Longrightarrow> y OR 192 = y + 192"
  using or_marker_nat[of y 6 3] by simp
lemma or_800: "(y::nat) < 2048 \<Longrightarrow> y OR 2048 = y + 2048"
  using or_marker_nat[of y 11 1] by simp
lemma or_10000: "(y::nat) < 65536 \<Longrightarrow> y OR 65536 = y + 65536"
  using or_marker_nat[of y 16 1] by simp

lemma unat_cont_byte: "unat (cont_byte c) = 128 + unat c mod 64"
proof -
  have m: "unat c AND 63 = unat c mod 64"
    using take_bit_eq_mask[of 6 "unat c"] by (simp add: take_bit_eq_mod mask_eq_exp_minus_1)
  have "unat c mod 64 < 2 ^ 7" using mod_less_divisor[of 64 "unat c"] by simp
  then have o: "unat c mod 64 OR 128 = unat c mod 64 + 128"
    using or_marker_nat[of "unat c mod 64" 7 1] by simp
  have "unat (cont_byte c) = take_bit 8 (128 OR (unat c AND 63))"
    by (simp add: cont_byte_def unsigned_ucast_eq unsigned_or_eq unsigned_and_eq)
  also have "\<dots> = take_bit 8 (unat c mod 64 + 128)"
    unfolding m using o by (simp only: or.commute)
  also have "\<dots> = unat c mod 64 + 128"
    by (rule take_bit_nat_eq_self) (use mod_less_divisor[of 64 "unat c"] in simp)
  finally show ?thesis by simp
qed

lemma step_c0: "unat (c::cint) < 2^31 \<Longrightarrow> unat c div 64 < 64 \<Longrightarrow>
   unat (signed_drop_bit 6 c OR 0xc0) = unat c div 64 + 192"
  by (simp add: unsigned_or_eq sdb6 or_c0)

lemma step_800: "unat (c::cint) < 2^31 \<Longrightarrow> unat c div 64 < 2048 \<Longrightarrow>
   unat (signed_drop_bit 6 c OR 0x800) = unat c div 64 + 2048"
  by (simp add: unsigned_or_eq sdb6 or_800)

lemma step_10000: "unat (c::cint) < 2^31 \<Longrightarrow> unat c div 64 < 65536 \<Longrightarrow>
   unat (signed_drop_bit 6 c OR 0x10000) = unat c div 64 + 65536"
  by (simp add: unsigned_or_eq sdb6 or_10000)

lemma unat_lead: "unat (ucast (c::cint) :: cchar) = unat c mod 256"
  by (simp add: unsigned_ucast_eq take_bit_eq_mod)

lemma nonneg_sint: "0 \<le>s (c::cint) \<Longrightarrow> sint c = int (unat c)"
proof -
  assume "0 \<le>s c"
  then have "0 \<le> sint c" by (simp add: word_sle_eq)
  moreover have "sint c < 2 ^ 32" using sint_lt[of c] by simp
  ultimately have "take_bit 32 (sint c) = sint c" by (rule take_bit_int_eq_self)
  then have "uint c = sint c" using uint_sint[of c] by simp
  then show ?thesis by simp
qed

lemma sless_unat:
  assumes "0 \<le>s (c::cint)" "sint k = int n"
  shows "(c <s k) = (unat c < n)"
proof -
  define u where "u = unat c"
  have s: "sint c = int u" unfolding u_def using assms(1) by (rule nonneg_sint)
  show ?thesis unfolding word_sless_alt s assms(2) u_def[symmetric] by simp
qed

lemma utf8_n_nonneg:
  assumes "0 \<le>s c"
  shows "utf8_n c =
     (if unat c < 0x80 then 1
      else if unat c < 0x800 then 2
      else if unat c < 0x10000 then 3
      else if unat c < 0x200000 then 4
      else if unat c < 0x4000000 then 5
      else 6)"
proof -
  have e1: "(c <s 0x80) = (unat c < 0x80)" by (rule sless_unat[OF assms]) simp
  have e2: "(c <s 0x800) = (unat c < 0x800)" by (rule sless_unat[OF assms]) simp
  have e3: "(c <s 0x10000) = (unat c < 0x10000)" by (rule sless_unat[OF assms]) simp
  have e4: "(c <s 0x200000) = (unat c < 0x200000)" by (rule sless_unat[OF assms]) simp
  have e5: "(c <s 0x4000000) = (unat c < 0x4000000)" by (rule sless_unat[OF assms]) simp
  have e6: "(c \<le>s 0x7fffffff) = True"
    using sint_lt[of c] unfolding word_sle_eq by simp
  show ?thesis unfolding utf8_n_def e1 e2 e3 e4 e5 e6 by simp
qed

lemma unat_le_10FFFF:
  assumes "0 \<le>s (c::cint)" "c \<le>s 0x10FFFF"
  shows "unat c \<le> 0x10FFFF"
proof -
  define u where "u = unat c"
  have s: "sint c = int u" unfolding u_def using assms(1) by (rule nonneg_sint)
  have "int u \<le> 0x10FFFF" using assms(2) unfolding word_sle_eq s by simp
  then show ?thesis unfolding u_def by linarith
qed

lemma utf8_n_std: "0 \<le>s (c::cint) \<Longrightarrow> c \<le>s 0x10FFFF \<Longrightarrow> utf8_n c = utf8_std_len (unat c)"
  using unat_le_10FFFF[of c] by (simp add: utf8_n_nonneg utf8_std_len_def)


lemma enc2_lead:
  assumes "unat (c::cint) < 0x800"
  shows "unat (ucast (signed_drop_bit 6 c OR 0xc0) :: cchar) = 0xC0 + unat c div 0x40"
proof -
  have "unat (signed_drop_bit 6 c OR 0xc0) = unat c div 64 + 192"
    using assms by (intro step_c0) simp_all
  then show ?thesis using assms by (simp add: unat_lead)
qed

lemma enc3_x:
  assumes "unat (c::cint) < 0x10000"
  shows "unat (signed_drop_bit 6 c OR 0x800) = unat c div 0x40 + 0x800"
  using assms by (intro step_800[simplified]) simp_all

lemma div64_add: "(n + m * 64) div 64 = n div 64 + (m::nat)"
  by simp

lemma mod64_add: "(n + m * 64) mod 64 = n mod (64::nat)"
  by simp

lemma div64_div64: "(n::nat) div 64 div 64 = n div 4096"
  by (simp add: div_mult2_eq[symmetric])

lemma div4096_div64: "(n::nat) div 4096 div 64 = n div 262144"
  by (simp add: div_mult2_eq[symmetric])

lemma enc3_lead:
  assumes "unat (c::cint) < 0x10000"
  shows "unat (ucast (signed_drop_bit 6 (signed_drop_bit 6 c OR 0x800) OR 0xc0) :: cchar)
         = 0xE0 + unat c div 0x1000"
proof -
  define x where "x = signed_drop_bit 6 c OR 0x800"
  have x: "unat x = unat c div 64 + 2048" unfolding x_def using enc3_x[OF assms] by simp
  have d: "unat x div 64 = unat c div 4096 + 32"
    unfolding x using div64_add[of "unat c div 64" 32] by (simp add: div64_div64)
  have "unat x < 2 ^ 31" using assms unfolding x by simp
  moreover have "unat x div 64 < 64" using assms unfolding d by simp
  ultimately have "unat (signed_drop_bit 6 x OR 0xc0) = unat x div 64 + 192"
    by (rule step_c0)
  then have "unat (signed_drop_bit 6 x OR 0xc0) = 224 + unat c div 4096"
    unfolding d by simp
  then have "unat (ucast (signed_drop_bit 6 x OR 0xc0) :: cchar) = 224 + unat c div 4096"
    using assms by (simp add: unat_lead)
  then show ?thesis unfolding x_def by simp
qed

lemma enc3_mid:
  assumes "unat (c::cint) < 0x10000"
  shows "unat (cont_byte (signed_drop_bit 6 c OR 0x800)) = 0x80 + unat c div 0x40 mod 0x40"
proof -
  have "(unat c div 64 + 2048) mod 64 = unat c div 64 mod 64"
    using mod64_add[of "unat c div 64" 32] by simp
  then show ?thesis unfolding unat_cont_byte enc3_x[OF assms] by simp
qed

lemma enc4_x:
  assumes "unat (c::cint) < 0x200000"
  shows "unat (signed_drop_bit 6 c OR 0x10000) = unat c div 0x40 + 0x10000"
  using assms by (intro step_10000[simplified]) simp_all

lemma enc4_y:
  assumes "unat (c::cint) < 0x200000"
  shows "unat (signed_drop_bit 6 (signed_drop_bit 6 c OR 0x10000) OR 0x800)
         = unat c div 0x1000 + 0xC00"
proof -
  define x where "x = signed_drop_bit 6 c OR 0x10000"
  have x: "unat x = unat c div 64 + 65536" unfolding x_def using enc4_x[OF assms] by simp
  have d: "unat x div 64 = unat c div 4096 + 1024"
    unfolding x using div64_add[of "unat c div 64" 1024] by (simp add: div64_div64)
  have "unat x < 2 ^ 31" using assms unfolding x by simp
  moreover have "unat x div 64 < 2048" using assms unfolding d by simp
  ultimately have "unat (signed_drop_bit 6 x OR 0x800) = unat x div 64 + 2048"
    by (rule step_800)
  then have "unat (signed_drop_bit 6 x OR 0x800) = unat c div 4096 + 3072"
    unfolding d by simp
  then show ?thesis unfolding x_def by simp
qed

lemma enc4_lead:
  assumes "unat (c::cint) < 0x200000"
  shows "unat (ucast (signed_drop_bit 6 (signed_drop_bit 6 (signed_drop_bit 6 c OR 0x10000)
                 OR 0x800) OR 0xc0) :: cchar)
         = 0xF0 + unat c div 0x40000"
proof -
  define y where "y = signed_drop_bit 6 (signed_drop_bit 6 c OR 0x10000) OR 0x800"
  have y: "unat y = unat c div 4096 + 3072" unfolding y_def using enc4_y[OF assms] by simp
  have d: "unat y div 64 = unat c div 262144 + 48"
    unfolding y using div64_add[of "unat c div 4096" 48] by (simp add: div4096_div64)
  have "unat y < 2 ^ 31" using assms unfolding y by simp
  moreover have "unat y div 64 < 64" using assms unfolding d by simp
  ultimately have "unat (signed_drop_bit 6 y OR 0xc0) = unat y div 64 + 192"
    by (rule step_c0)
  then have "unat (signed_drop_bit 6 y OR 0xc0) = 240 + unat c div 262144"
    unfolding d by simp
  then have "unat (ucast (signed_drop_bit 6 y OR 0xc0) :: cchar) = 240 + unat c div 262144"
    using assms by (simp add: unat_lead)
  then show ?thesis unfolding y_def by simp
qed

lemma enc4_b1:
  assumes "unat (c::cint) < 0x200000"
  shows "unat (cont_byte (signed_drop_bit 6 (signed_drop_bit 6 c OR 0x10000) OR 0x800))
         = 0x80 + unat c div 0x1000 mod 0x40"
proof -
  have "(unat c div 4096 + 3072) mod 64 = unat c div 4096 mod 64"
    using mod64_add[of "unat c div 4096" 48] by simp
  then show ?thesis unfolding unat_cont_byte enc4_y[OF assms] by simp
qed

lemma enc4_b2:
  assumes "unat (c::cint) < 0x200000"
  shows "unat (cont_byte (signed_drop_bit 6 c OR 0x10000)) = 0x80 + unat c div 0x40 mod 0x40"
proof -
  have "(unat c div 64 + 65536) mod 64 = unat c div 64 mod 64"
    using mod64_add[of "unat c div 64" 1024] by simp
  then show ?thesis unfolding unat_cont_byte enc4_x[OF assms] by simp
qed


lemma lead_byte_ok_unat:
  "lead_byte_ok n v =
     (if n = 1 then unat v div 128 = 0
      else if n = 2 then unat v div 32 = 6
      else if n = 3 then unat v div 16 = 14
      else if n = 4 then unat v div 8 = 30
      else False)"
  by (simp add: lead_byte_ok_def word_eq_iff_unsigned[where ?'a = nat]
      unsigned_drop_bit_eq drop_bit_eq_div unat_div)

lemma cont_byte_ok_unat: "cont_byte_ok v = (128 \<le> unat v \<and> unat v \<le> 191)"
  by (simp add: cont_byte_ok_def word_le_nat_alt)

lemma cont_byte_ok_cont_byte: "cont_byte_ok (cont_byte c)"
  unfolding cont_byte_ok_unat unat_cont_byte
  using mod_less_divisor[of 64 "unat c"] by simp

section \<open>Facts about colors\<close>

lemma color_simps:
  "Color_float4 r g b a = \<lparr>coeff_x = r, coeff_y = g, coeff_z = b, coeff_w = a\<rparr>"
  "Color_float2 i a = \<lparr>coeff_x = i, coeff_y = i, coeff_z = i, coeff_w = a\<rparr>"
  by (simp_all add: Color_float4_def Color_float2_def Color_Vector4f_def
      Color_Vector3f_alpha_def Vector3_Constant_def)

lemma luminance_eq:
  "luminance c = 0.299 * coeff_x c + 0.587 * coeff_y c + 0.144 * coeff_z c"
  by (simp add: luminance_def sum_coeffs_def cwiseProduct_def color_simps)

lemma contrastingColor_eq:
  "contrastingColor c =
     (if luminance c < 0.5 then Color_float4 1 1 1 1 else Color_float4 0 0 0 1)"
  by (simp add: contrastingColor_def color_simps)

section \<open>Facts about modifier masks\<close>

lemma code_and_code:
  "(modifier_code a AND modifier_code m \<noteq> 0) = (a = m)"
  by (cases a; cases m)
     (simp_all add: SHIFT_DOWN_def ALT_DOWN_def CTRL_DOWN_def META_DOWN_def)

lemma modifier_down_mask: "modifier_down (modifiers_mask ms) m = (m \<in> set ms)"
proof (induction ms)
  case Nil
  show ?case by (simp add: modifier_down_def)
next
  case (Cons a ms)
  have "modifier_down (modifiers_mask (a # ms)) m =
        (modifier_code a AND modifier_code m \<noteq> 0 \<or> modifier_down (modifiers_mask ms) m)"
    by (auto simp add: modifier_down_def bit.conj_disj_distrib2 or_eq_0_iff)
  then show ?case using Cons.IH by (auto simp add: code_and_code)
qed

lemma modifiers_mask_canonical: "modifiers_mask ms = canonical_mask (set ms)"
proof (induction ms)
  case Nil
  show ?case by (simp add: canonical_mask_def)
next
  case (Cons a ms)
  have "modifier_code a OR canonical_mask S = canonical_mask (insert a S)" for S
    by (cases a)
       (simp_all add: canonical_mask_def SHIFT_DOWN_def ALT_DOWN_def CTRL_DOWN_def META_DOWN_def)
  then show ?case using Cons.IH by simp
qed

section \<open>Claims\<close>

text \<open>
  C1. For every code point \<open>c\<close> with \<open>0 \<le> c \<le> 0x10FFFF\<close>, whatever the fresh
  array held, \<open>utf8 c\<close> returns an array whose first \<open>n\<close> bytes are the UTF-8
  encoding of \<open>c\<close>, where \<open>n\<close> is 1 below \<open>0x80\<close>, 2 below \<open>0x800\<close>, 3 below
  \<open>0x10000\<close> and 4 otherwise; the lead byte carries the prefix of an \<open>n\<close>-byte
  sequence, every later byte of the \<open>n\<close> lies in \<open>0x80..0xBF\<close>, and the byte at
  index \<open>n\<close> is NUL.
\<close>

theorem utf8_encodes_standard:
  assumes "0 \<le>s c" and "c \<le>s 0x10FFFF"
  shows "\<exists>seq. utf8 stk c = Inr seq
           \<and> utf8_n c = utf8_std_len (unat c)
           \<and> map unat (take (utf8_n c) seq) = utf8_std (unat c)
           \<and> seq ! utf8_n c = 0
           \<and> lead_byte_ok (utf8_n c) (seq ! 0)
           \<and> list_all cont_byte_ok (tl (take (utf8_n c) seq))"
proof -
  have le: "unat c \<le> 0x10FFFF" using assms by (rule unat_le_10FFFF)
  have n: "utf8_n c = utf8_std_len (unat c)" using assms by (rule utf8_n_std)
  consider (one) "unat c < 0x80"
    | (two) "0x80 \<le> unat c" "unat c < 0x800"
    | (three) "0x800 \<le> unat c" "unat c < 0x10000"
    | (four) "0x10000 \<le> unat c" "unat c < 0x200000"
    using le by linarith
  then show ?thesis
  proof cases
    case one
    then have k: "utf8_n c = 1" unfolding n by (simp add: utf8_std_len_def)
    have l: "unat (ucast c :: cchar) = unat c" using one by (simp add: unat_lead)
    show ?thesis
      unfolding utf8_1[OF k] k using one
      by (simp add: l utf8_std_def utf8_std_len_def lead_byte_ok_unat)
  next
    case two
    then have k: "utf8_n c = 2" unfolding n by (simp add: utf8_std_len_def)
    note l = enc2_lead[OF two(2)]
    have "(192 + unat c div 64) div 32 = 6" using two by simp
    then show ?thesis
      unfolding utf8_2[OF k] k using two
      by (simp add: l unat_cont_byte utf8_std_def utf8_std_len_def lead_byte_ok_unat
          cont_byte_ok_cont_byte)
  next
    case three
    then have k: "utf8_n c = 3" unfolding n by (simp add: utf8_std_len_def)
    note l = enc3_lead[OF three(2)] and m = enc3_mid[OF three(2)]
    have "(224 + unat c div 4096) div 16 = 14" using three by simp
    then show ?thesis
      unfolding utf8_3[OF k] k using three
      by (simp add: l m unat_cont_byte[of c] utf8_std_def utf8_std_len_def lead_byte_ok_unat
          cont_byte_ok_cont_byte)
  next
    case four
    then have k: "utf8_n c = 4" unfolding n by (simp add: utf8_std_len_def)
    note l = enc4_lead[OF four(2)] and m1 = enc4_b1[OF four(2)] and m2 = enc4_b2[OF four(2)]
    have "(240 + unat c div 262144) div 8 = 30" using four by simp
    then show ?thesis
      unfolding utf8_4[OF k] k using four
      by (simp add: l m1 m2 unat_cont_byte[of c] utf8_std_def utf8_std_len_def lead_byte_ok_unat
          cont_byte_ok_cont_byte)
  qed
qed

theorem utf8_encodes_standard_witness:
  "0 \<le>s (0x20AC :: cint) \<and> (0x20AC :: cint) \<le>s 0x10FFFF
   \<and> (\<exists>seq. utf8 zero_storage 0x20AC = Inr seq
           \<and> utf8_n 0x20AC = utf8_std_len (unat (0x20AC :: cint))
           \<and> map unat (take (utf8_n 0x20AC) seq) = utf8_std (unat (0x20AC :: cint))
           \<and> seq ! utf8_n 0x20AC = 0
           \<and> lead_byte_ok (utf8_n 0x20AC) (seq ! 0)
           \<and> list_all cont_byte_ok (tl (take (utf8_n 0x20AC) seq)))"
proof -
  have h1: "0 \<le>s (0x20AC :: cint)" by (simp add: word_sle_eq)
  have h2: "(0x20AC :: cint) \<le>s 0x10FFFF" by (simp add: word_sle_eq)
  from utf8_encodes_standard[OF h1 h2, of zero_storage] h1 h2 show ?thesis by blast
qed

text \<open>
  C2. The claim: \<open>contrastingColor\<close> returns opaque white when
  \<open>0.299 * r + 0.587 * g + 0.114 * b < 0.5\<close> and opaque black otherwise, alpha not
  counting. The source weighs blue with \<open>0.144\<close>. At the color
  \<open>(0, 0.625, 1, 1)\<close> the claim's sum is \<open>0.480875\<close>, below one half, so the claim
  asks for white; the source's sum is \<open>0.510875\<close> and it returns opaque black.
\<close>

theorem contrastingColor_blue_weight:
  "0.299 * 0 + 0.587 * (5 / 8) + 0.114 * 1 < (0.5 :: real)
   \<and> contrastingColor (Color_float4 0 (5 / 8) 1 1) = Color_float4 0 0 0 1"
  by (simp add: contrastingColor_eq luminance_eq color_simps)

text \<open>
  C3. For every \<open>int\<close> \<open>c\<close>, negative ones included, and whatever the fresh array
  held, \<open>utf8\<close> picks a length between 1 and 6 and every write lands inside the
  eight bytes: the call returns its array and never \<open>OutOfBounds\<close>. The icon
  predicates, \<open>contrastingColor\<close> and the constructors have no failing operation in
  the source and are total functions here.
\<close>

theorem utf8_total:
  "1 \<le> utf8_n c \<and> utf8_n c \<le> 6
   \<and> (\<exists>seq. utf8 stk c = Inr seq \<and> length seq = 8)"
proof -
  have "\<exists>seq. utf8 stk c = Inr seq \<and> length seq = 8"
    using utf8_n_cases[of c]
  proof (elim disjE)
    assume "utf8_n c = 1" then show ?thesis by (simp add: utf8_1)
  next
    assume "utf8_n c = 2" then show ?thesis by (simp add: utf8_2)
  next
    assume "utf8_n c = 3" then show ?thesis by (simp add: utf8_3)
  next
    assume "utf8_n c = 4" then show ?thesis by (simp add: utf8_4)
  next
    assume "utf8_n c = 5" then show ?thesis by (simp add: utf8_5)
  next
    assume "utf8_n c = 6" then show ?thesis by (simp add: utf8_6)
  qed
  then show ?thesis using utf8_n_range[of c] by simp
qed

text \<open>
  C4, as stated, fails: the bytes of the array after the NUL are never written, so two
  calls of \<open>utf8\<close> with the same code point return arrays that differ wherever the
  storage differed. For \<open>'A'\<close> the results are \<open>[65, 0, 0, 0, 0, 0, 0, 0]\<close> on
  zeroed storage and \<open>[65, 0, 255, 255, 255, 255, 255, 255]\<close> on storage full of
  \<open>0xFF\<close>.
\<close>

theorem utf8_unwritten_tail_differs:
  "utf8 zero_storage 65 \<noteq> utf8 ones_storage 65"
  by (simp add: utf8_1 utf8_n_def zero_storage_def ones_storage_def)

text \<open>
  C4, amended. Two calls of \<open>utf8\<close> with the same code point return arrays that agree
  on bytes \<open>0..n\<close>, the encoded bytes and the NUL; the bytes after index \<open>n\<close> are
  what the fresh array held. Every other function of the header depends on its
  arguments only.
\<close>

theorem utf8_written_prefix_determined:
  "\<exists>s1 s2. utf8 stk1 c = Inr s1 \<and> utf8 stk2 c = Inr s2
     \<and> take (Suc (utf8_n c)) s1 = take (Suc (utf8_n c)) s2
     \<and> drop (Suc (utf8_n c)) s1 = drop (Suc (utf8_n c)) (fresh_array stk1)
     \<and> drop (Suc (utf8_n c)) s2 = drop (Suc (utf8_n c)) (fresh_array stk2)"
  using utf8_n_cases[of c]
proof (elim disjE)
  assume "utf8_n c = 1" then show ?thesis by (simp add: utf8_1 fresh_array_eq)
next
  assume "utf8_n c = 2" then show ?thesis by (simp add: utf8_2 fresh_array_eq)
next
  assume "utf8_n c = 3" then show ?thesis by (simp add: utf8_3 fresh_array_eq)
next
  assume "utf8_n c = 4" then show ?thesis by (simp add: utf8_4 fresh_array_eq)
next
  assume "utf8_n c = 5" then show ?thesis by (simp add: utf8_5 fresh_array_eq)
next
  assume "utf8_n c = 6" then show ?thesis by (simp add: utf8_6 fresh_array_eq)
qed

text \<open>
  C5. Each constructor that takes \<open>int\<close>s builds the color the \<open>float\<close> constructor
  builds from every integer channel converted to \<open>float\<close> and divided by 255:
  \<open>Color (int, int, int, int)\<close>, \<open>Color (Vector3i, int)\<close>, \<open>Color (Vector3i)\<close>
  (whose alpha is 1), \<open>Color (Vector4i)\<close> and \<open>Color (int intensity, int alpha)\<close>.
\<close>

theorem Color_int_constructors:
  "Color_int4 r g b a =
     Color_float4 (cast_float r / 255) (cast_float g / 255) (cast_float b / 255)
       (cast_float a / 255)
   \<and> Color_Vector3i_alpha v alpha =
     Color_float4 (cast_float (coeff0 v) / 255) (cast_float (coeff1 v) / 255)
       (cast_float (coeff2 v) / 255) (cast_float alpha / 255)
   \<and> Color_Vector3i v =
     Color_float4 (cast_float (coeff0 v) / 255) (cast_float (coeff1 v) / 255)
       (cast_float (coeff2 v) / 255) 1
   \<and> Color_Vector4i u =
     Color_float4 (cast_float (coeff_x u) / 255) (cast_float (coeff_y u) / 255)
       (cast_float (coeff_z u) / 255) (cast_float (coeff_w u) / 255)
   \<and> Color_int2 intensity alpha =
     Color_float4 (cast_float intensity / 255) (cast_float intensity / 255)
       (cast_float intensity / 255) (cast_float alpha / 255)"
  by (simp add: Color_int4_def Color_Vector4i_def Color_Vector4f_def Color_float4_def
      Vector4_div_def Vector4_cast_float_def Color_Vector3i_alpha_def Color_Vector3f_alpha_def
      Vector3_div_def Vector3_cast_float_def Color_Vector3i_def Color_Vector3f_def
      Color_int2_def Vector3_Constant_def)

text \<open>
  C6. The references returned by \<open>r()\<close>, \<open>g()\<close> and \<open>b()\<close>, const or not, read
  the first, second and third coefficient of the vector, and the const overloads
  return the object as it was.
\<close>

theorem Color_accessors:
  "deref c (fst (Color_r c)) = coeff_x c
   \<and> deref c (fst (Color_g c)) = coeff_y c
   \<and> deref c (fst (Color_b c)) = coeff_z c
   \<and> deref c (fst (Color_r_const c)) = coeff_x c
   \<and> deref c (fst (Color_g_const c)) = coeff_y c
   \<and> deref c (fst (Color_b_const c)) = coeff_z c
   \<and> snd (Color_r_const c) = c
   \<and> snd (Color_g_const c) = c
   \<and> snd (Color_b_const c) = c"
  by (simp add: Color_r_def Color_g_def Color_b_def
      Color_r_const_def Color_g_const_def Color_b_const_def)

text \<open>
  C7. \<open>SHIFT_DOWN\<close>, \<open>ALT_DOWN\<close>, \<open>CTRL_DOWN\<close> and \<open>META_DOWN\<close> are four
  different values, each a single bit (bits 3, 4, 5 and 6). A modifier tests as down
  in the OR of a collection of modifiers exactly when it is in the collection, and two
  collections have the same OR exactly when they hold the same modifiers.
\<close>

theorem modifier_codes:
  "distinct [SHIFT_DOWN, ALT_DOWN, CTRL_DOWN, META_DOWN]
   \<and> SHIFT_DOWN = push_bit 3 1 \<and> ALT_DOWN = push_bit 4 1
   \<and> CTRL_DOWN = push_bit 5 1 \<and> META_DOWN = push_bit 6 1
   \<and> modifier_down (modifiers_mask ms) m = (m \<in> set ms)
   \<and> (modifiers_mask ms = modifiers_mask ms') = (set ms = set ms')"
proof -
  have "set ms = set ms'" if "modifiers_mask ms = modifiers_mask ms'"
  proof -
    have "(m \<in> set ms) = (m \<in> set ms')" for m
      using that modifier_down_mask[of ms m] modifier_down_mask[of ms' m] by simp
    then show ?thesis by blast
  qed
  moreover have "modifiers_mask ms = modifiers_mask ms'" if "set ms = set ms'"
    using that by (simp add: modifiers_mask_canonical)
  ultimately have "(modifiers_mask ms = modifiers_mask ms') = (set ms = set ms')" by blast
  then show ?thesis
    by (simp add: modifier_down_mask SHIFT_DOWN_def ALT_DOWN_def CTRL_DOWN_def META_DOWN_def)
qed

text \<open>
  C8. \<open>nvgIsFontIcon\<close> holds exactly where \<open>nvgIsImageIcon\<close> does not; the image
  icons are the values below 1024, and 1024 itself is a font icon.
\<close>

theorem icon_partition:
  "nvgIsFontIcon v = (\<not> nvgIsImageIcon v)
   \<and> nvgIsImageIcon v = (sint v < 1024)
   \<and> nvgIsFontIcon 1024 \<and> \<not> nvgIsImageIcon 1024
   \<and> nvgIsImageIcon 1023 \<and> \<not> nvgIsFontIcon 1023"
  by (simp add: nvgIsFontIcon_def nvgIsImageIcon_def word_sless_alt word_sle_eq not_less)

text \<open>
  C9. The result of \<open>contrastingColor\<close> has alpha 1 and equal red, green and blue,
  all 0 or all 1; applying \<open>contrastingColor\<close> twice to a result gives the result
  back.
\<close>

theorem contrastingColor_image:
  "coeff_w (contrastingColor c) = 1
   \<and> coeff_x (contrastingColor c) = coeff_y (contrastingColor c)
   \<and> coeff_y (contrastingColor c) = coeff_z (contrastingColor c)
   \<and> (coeff_x (contrastingColor c) = 0 \<or> coeff_x (contrastingColor c) = 1)
   \<and> contrastingColor (contrastingColor (contrastingColor c)) = contrastingColor c"
  by (simp add: contrastingColor_eq luminance_eq color_simps)

text \<open>
  C10. \<open>Color()\<close> is transparent black: red, green, blue and alpha are all 0.
\<close>

theorem Color_default_zero:
  "Color_default = \<lparr>coeff_x = 0, coeff_y = 0, coeff_z = 0, coeff_w = 0\<rparr>"
  by (simp add: Color_default_def Color_int4_def Color_Vector4i_def Color_Vector4f_def
      Vector4_div_def Vector4_cast_float_def cast_float_def)

end
